theory Spec2Isabelle
  imports Main
begin

section \<open>Objects and their lifetime\<close>

text \<open>
  \<open>Option<T>\<close> and \<open>Result<T, E>\<close> keep their payload in an anonymous union and
  run constructors and destructors on it by hand (placement new, explicit destructor
  calls, \<open>std::move\<close>, \<open>std::swap\<close>). A piece of storage for a \<open>T\<close> is therefore
  in one of three states: \<open>Vacant\<close> (no live object: never constructed, or destructed),
  \<open>Holds v\<close> (a live object with value \<open>v\<close>), \<open>Moved_from\<close> (a live object that has
  been moved from: valid, of unspecified value).
\<close>

datatype 'a obj = Vacant | Holds 'a | Moved_from

text \<open>
  \<open>new (&dst) T(std::move(src))\<close>: the pair is (the object constructed, what is left in
  \<open>src\<close>). Moving from storage without a live object is undefined behaviour in C++; the
  model constructs nothing there.
\<close>

fun move_construct :: "'a obj \<Rightarrow> 'a obj \<times> 'a obj" where
  "move_construct (Holds v) = (Holds v, Moved_from)"
| "move_construct Moved_from = (Moved_from, Moved_from)"
| "move_construct Vacant = (Vacant, Vacant)"

text \<open>\<open>dst = std::move(src)\<close> on a live \<open>dst\<close>: the pair is (\<open>dst\<close>, \<open>src\<close>) afterwards.\<close>

fun move_assign :: "'a obj \<Rightarrow> 'a obj \<Rightarrow> 'a obj \<times> 'a obj" where
  "move_assign Vacant src = (Vacant, src)"
| "move_assign dst src = move_construct src"

text \<open>\<open>T copy = src;\<close> and \<open>new (&dst) T(src)\<close>: the source is left as it is.\<close>

definition copy_construct :: "'a obj \<Rightarrow> 'a obj" where
  "copy_construct src = src"

text \<open>\<open>x.~T()\<close>: the storage holds no object afterwards.\<close>

definition destroy :: "'a obj \<Rightarrow> 'a obj" where
  "destroy x = Vacant"

text \<open>
  \<open>std::swap(a, b)\<close> as the standard library defines it:
  \<open>T tmp(std::move(a)); a = std::move(b); b = std::move(tmp);\<close>.
  The pair is (\<open>a\<close>, \<open>b\<close>) afterwards.
\<close>

definition std_swap :: "'a obj \<Rightarrow> 'a obj \<Rightarrow> 'a obj \<times> 'a obj" where
  "std_swap a b =
     (let (tmp, a1) = move_construct a;
          (a2, b1) = move_assign a1 b;
          (b2, tmp1) = move_assign b1 tmp
      in (a2, b2))"

text \<open>
  An implicit or explicit conversion (\<open>convertible_to<A, B>\<close>, \<open>static_cast<B>\<close>) of an
  object, given the conversion on values.
\<close>

fun convert :: "('a \<Rightarrow> 'b) \<Rightarrow> 'a obj \<Rightarrow> 'b obj" where
  "convert conv (Holds v) = Holds (conv v)"
| "convert conv Moved_from = Moved_from"
| "convert conv Vacant = Vacant"

section \<open>The value-forwarding wrappers\<close>

text \<open>
  \<open>NoneType\<close>, \<open>Some<T>\<close>, \<open>Ok<T>\<close> and \<open>Err<E>\<close>. Each of the last three is a struct
  with the one member \<open>value_\<close>; its constructor takes an r-value and move-constructs
  \<open>value_\<close> from it. The constructor functions return the wrapper and what is left of
  the argument.
\<close>

datatype NoneType = None'

datatype 'a Some = Some' "'a obj"

datatype 'a Ok = Ok "'a obj"

datatype 'a Err = Err "'a obj"

definition Some_ctor :: "'a obj \<Rightarrow> 'a Some \<times> 'a obj" where
  "Some_ctor val = (let (v, src) = move_construct val in (Some' v, src))"

definition Ok_ctor :: "'a obj \<Rightarrow> 'a Ok \<times> 'a obj" where
  "Ok_ctor val = (let (v, src) = move_construct val in (Ok v, src))"

definition Err_ctor :: "'a obj \<Rightarrow> 'a Err \<times> 'a obj" where
  "Err_ctor val = (let (v, src) = move_construct val in (Err v, src))"

section \<open>Panics, process termination and callables\<close>

text \<open>
  The part of the process that the operations below can change: the invocations of the panic
  handler so far (each tagged with the helper that raised the panic) and the number of times
  a callable handed to a combinator has been invoked. A computation either returns a value
  or terminates the process.
\<close>

datatype panic_site = Option_no_lref | Option_no_value | Result_no_err_lref

record process =
  handler_invocations :: "panic_site list"
  callable_invocations :: nat

datatype 'a outcome = Returned 'a | Terminated

type_synonym 'a exec = "process \<Rightarrow> 'a outcome \<times> process"

definition return_exec :: "'a \<Rightarrow> 'a exec" where
  "return_exec x p = (Returned x, p)"

text \<open>Sequencing: what follows a call that terminated the process does not run.\<close>

definition bind_exec :: "'a exec \<Rightarrow> ('a \<Rightarrow> 'b exec) \<Rightarrow> 'b exec" where
  "bind_exec m k p =
     (case m p of
        (Returned x, p') \<Rightarrow> k x p'
      | (Terminated, p') \<Rightarrow> (Terminated, p'))"

text \<open>\<open>std::forward<Fn&&>(op)(x)\<close>: one invocation of the caller's callable.\<close>

definition invoke :: "('a \<Rightarrow> 'b) \<Rightarrow> 'a \<Rightarrow> 'b exec" where
  "invoke op x p =
     (Returned (op x), p\<lparr>callable_invocations := callable_invocations p + 1\<rparr>)"

text \<open>
  Modelled from the spec: the panic core (\<open>stx/panic.h\<close>) is not among the sources. The
  spec gives its state machine as
  \<open>Triggered(message, location) \<rightarrow> [handler invoked] \<rightarrow> process terminates\<close>, with no
  return path. The message texts are not among the sources either, so an invocation of the
  handler is recorded by the helper that raised the panic.
\<close>

definition panic :: "panic_site \<Rightarrow> 'a exec" where
  "panic site p =
     (Terminated, p\<lparr>handler_invocations := handler_invocations p @ [site]\<rparr>)"

text \<open>
  Modelled from the spec: the helpers \<open>internal::option::no_lref\<close>,
  \<open>internal::option::no_value\<close> and \<open>internal::result::no_err_lref\<close>
  (\<open>stx/internal/panic_helpers.h\<close>) are not among the sources. The accessors call them on
  the wrong variant and have no return statement after \<open>no_value\<close>; the spec has every such
  access invoke the panic core. \<open>no_err_lref\<close> takes the success payload for its message.
\<close>

definition option_no_lref :: "'a exec" where
  "option_no_lref = panic Option_no_lref"

definition option_no_value :: "'a exec" where
  "option_no_value = panic Option_no_value"

definition result_no_err_lref :: "'t obj \<Rightarrow> 'a exec" where
  "result_no_err_lref val = panic Result_no_err_lref"

text \<open>\<open>std::abort()\<close>: declared \<open>[[noreturn]]\<close> by the standard; the process terminates.\<close>

definition std_abort :: "'a exec" where
  "std_abort p = (Terminated, p)"

text \<open>
  \<open>panic_abort(info, location)\<close> of \<open>stx/panic/handlers/abort/abort.h\<close>: both arguments
  are discarded (\<open>(void)info; (void)location;\<close>), then \<open>std::abort()\<close>. The type
  \<open>SourceLocation\<close> is declared in \<open>stx/panic.h\<close>; it is a type parameter here.
\<close>

definition panic_abort :: "string \<Rightarrow> 'loc \<Rightarrow> 'a exec" where
  "panic_abort info location = std_abort"

section \<open>The containers\<close>

text \<open>
  \<open>Option<T>\<close> has the members \<open>union { T storage_value_; }\<close> and \<open>bool is_none_\<close>;
  \<open>Result<T, E>\<close> has \<open>bool is_ok_\<close> and \<open>union { T storage_value_; E storage_err_; }\<close>.
  The two members of \<open>Result\<close>'s union are kept as two fields, at most one of them live.
  A trailing underscore is not a legal name here, so it is written as a prime.
\<close>

record 'a Option =
  storage_value' :: "'a obj"
  is_none' :: bool

record ('t, 'e) Result =
  is_ok' :: bool
  storage_value' :: "'t obj"
  storage_err' :: "'e obj"

subsection \<open>\<open>Option<T>\<close>: construction and state\<close>

definition Option_is_none :: "'a Option \<Rightarrow> bool" where
  "Option_is_none this = is_none' this"

definition Option_is_some :: "'a Option \<Rightarrow> bool" where
  "Option_is_some this = (\<not> Option_is_none this)"

text \<open>\<open>value_ref_()\<close> and \<open>value_cref_()\<close>: the storage, whatever its state.\<close>

definition Option_value_ref :: "'a Option \<Rightarrow> 'a obj" where
  "Option_value_ref this = Option.storage_value' this"

text \<open>\<open>Option(Some<T>&& some) : storage_value_(std::move(some.value_)), is_none_(false)\<close>\<close>

definition Option_from_Some :: "'a Some \<Rightarrow> 'a Option" where
  "Option_from_Some some =
     (case some of Some' val \<Rightarrow>
        \<lparr>Option.storage_value' = fst (move_construct val), is_none' = False\<rparr>)"

text \<open>\<open>Option(NoneType const&) : is_none_(true)\<close>\<close>

definition Option_from_None :: "NoneType \<Rightarrow> 'a Option" where
  "Option_from_None n = \<lparr>Option.storage_value' = Vacant, is_none' = True\<rparr>"

text \<open>
  \<open>Option(Option&& rhs)\<close>: the discriminant is copied and the payload, if any, is
  move-constructed. The pair is (the new container, \<open>rhs\<close> afterwards); \<open>rhs\<close> keeps its
  discriminant.
\<close>

definition Option_move_ctor :: "'a Option \<Rightarrow> 'a Option \<times> 'a Option" where
  "Option_move_ctor rhs =
     (if Option_is_some rhs then
        (let (v, src) = move_construct (Option.storage_value' rhs)
         in (\<lparr>Option.storage_value' = v, is_none' = is_none' rhs\<rparr>,
             rhs\<lparr>Option.storage_value' := src\<rparr>))
      else (\<lparr>Option.storage_value' = Vacant, is_none' = is_none' rhs\<rparr>, rhs))"

text \<open>
  \<open>Option& operator=(Option&& rhs)\<close>. The pair is (\<open>*this\<close>, \<open>rhs\<close>) afterwards. When both
  are \<open>None\<close> no branch is taken.
\<close>

definition Option_move_assign :: "'a Option \<Rightarrow> 'a Option \<Rightarrow> 'a Option \<times> 'a Option" where
  "Option_move_assign this rhs =
     (if Option_is_some this \<and> Option_is_some rhs then
        (let (a, b) = std_swap (Option.storage_value' this) (Option.storage_value' rhs)
         in (this\<lparr>Option.storage_value' := a\<rparr>, rhs\<lparr>Option.storage_value' := b\<rparr>))
      else if Option_is_some this \<and> Option_is_none rhs then
        (let (v, src) = move_construct (Option.storage_value' this);
             rhs1 = rhs\<lparr>Option.storage_value' := v\<rparr>;
             this1 = this\<lparr>Option.storage_value' := destroy src\<rparr>;
             this2 = this1\<lparr>is_none' := True\<rparr>;
             rhs2 = rhs1\<lparr>is_none' := False\<rparr>
         in (this2, rhs2))
      else if Option_is_none this \<and> Option_is_some rhs then
        (let (v, src) = move_construct (Option.storage_value' rhs);
             this1 = this\<lparr>Option.storage_value' := v\<rparr>;
             rhs1 = rhs\<lparr>Option.storage_value' := destroy src\<rparr>;
             rhs2 = rhs1\<lparr>is_none' := True\<rparr>;
             this2 = this1\<lparr>is_none' := False\<rparr>
         in (this2, rhs2))
      else (this, rhs))"

subsection \<open>\<open>Result<T, E>\<close>: construction and state\<close>

definition Result_is_ok :: "('t, 'e) Result \<Rightarrow> bool" where
  "Result_is_ok this = is_ok' this"

definition Result_is_err :: "('t, 'e) Result \<Rightarrow> bool" where
  "Result_is_err this = (\<not> Result_is_ok this)"

definition Result_value_ref :: "('t, 'e) Result \<Rightarrow> 't obj" where
  "Result_value_ref this = Result.storage_value' this"

definition Result_err_ref :: "('t, 'e) Result \<Rightarrow> 'e obj" where
  "Result_err_ref this = storage_err' this"

text \<open>\<open>Result(Ok<T>&& result) : is_ok_(true), storage_value_(std::forward<T>(result.value_))\<close>\<close>

definition Result_from_Ok :: "'t Ok \<Rightarrow> ('t, 'e) Result" where
  "Result_from_Ok result =
     (case result of Ok val \<Rightarrow>
        \<lparr>is_ok' = True, storage_value' = fst (move_construct val), storage_err' = Vacant\<rparr>)"

text \<open>\<open>Result(Err<E>&& err) : is_ok_(false), storage_err_(std::forward<E>(err.value_))\<close>\<close>

definition Result_from_Err :: "'e Err \<Rightarrow> ('t, 'e) Result" where
  "Result_from_Err err =
     (case err of Err val \<Rightarrow>
        \<lparr>is_ok' = False, storage_value' = Vacant, storage_err' = fst (move_construct val)\<rparr>)"

text \<open>\<open>Result(Result&& rhs)\<close>; the pair is (the new container, \<open>rhs\<close> afterwards).\<close>

definition Result_move_ctor :: "('t, 'e) Result \<Rightarrow> ('t, 'e) Result \<times> ('t, 'e) Result" where
  "Result_move_ctor rhs =
     (if Result_is_ok rhs then
        (let (v, src) = move_construct (Result.storage_value' rhs)
         in (\<lparr>is_ok' = is_ok' rhs, storage_value' = v, storage_err' = Vacant\<rparr>,
             rhs\<lparr>Result.storage_value' := src\<rparr>))
      else
        (let (e, src) = move_construct (storage_err' rhs)
         in (\<lparr>is_ok' = is_ok' rhs, storage_value' = Vacant, storage_err' = e\<rparr>,
             rhs\<lparr>storage_err' := src\<rparr>)))"

subsection \<open>\<open>Option<T>\<close>: accessors and combinators\<close>

text \<open>
  \<open>T& value() &\<close> and \<open>T const& value() const&\<close>:
  \<open>if (is_none_) internal::option::no_lref(); return value_ref_();\<close>.
  The reference returned is read as the storage it refers to.
\<close>

definition Option_value :: "'a Option \<Rightarrow> 'a obj exec" where
  "Option_value this =
     bind_exec (if is_none' this then option_no_lref else return_exec ())
       (\<lambda>u. return_exec (Option_value_ref this))"

text \<open>\<open>auto unwrap() && -> T\<close>: the payload moved out, or \<open>internal::option::no_value()\<close>.\<close>

definition Option_unwrap :: "'a Option \<Rightarrow> 'a obj exec" where
  "Option_unwrap this =
     (if Option_is_some this then
        return_exec (fst (move_construct (Option_value_ref this)))
      else option_no_value)"

text \<open>\<open>ok_or(E error) &&\<close>\<close>

definition Option_ok_or :: "'a Option \<Rightarrow> 'e obj \<Rightarrow> ('a, 'e) Result" where
  "Option_ok_or this error =
     (if Option_is_some this then
        Result_from_Ok (fst (Ok_ctor (Option_value_ref this)))
      else Result_from_Err (fst (Err_ctor error)))"

text \<open>
  \<open>AND(Option<U>&& cmp) &&\<close>, \<open>OR(Option&& alt) &&\<close>, \<open>XOR(Option&& alt) &&\<close>. Returning
  \<open>std::move(*this)\<close> or the other operand by value runs the move constructor; \<open>return None\<close>
  runs the constructor from \<open>NoneType\<close>.
\<close>

definition Option_AND :: "'a Option \<Rightarrow> 'u Option \<Rightarrow> 'u Option" where
  "Option_AND this cmp =
     (if Option_is_some this then fst (Option_move_ctor cmp)
      else Option_from_None None')"

definition Option_OR :: "'a Option \<Rightarrow> 'a Option \<Rightarrow> 'a Option" where
  "Option_OR this alt =
     (if Option_is_some this then fst (Option_move_ctor this)
      else fst (Option_move_ctor alt))"

definition Option_XOR :: "'a Option \<Rightarrow> 'a Option \<Rightarrow> 'a Option" where
  "Option_XOR this alt =
     (if Option_is_some this \<and> Option_is_none alt then fst (Option_move_ctor this)
      else if Option_is_none this \<and> Option_is_some alt then fst (Option_move_ctor alt)
      else Option_from_None None')"

text \<open>\<open>and_then(Fn&& op) &&\<close>: \<open>op\<close> returns an \<open>Option\<close>; it is invoked on the payload.\<close>

definition Option_and_then :: "'a Option \<Rightarrow> ('a obj \<Rightarrow> 'u Option) \<Rightarrow> 'u Option exec" where
  "Option_and_then this op =
     (if Option_is_some this then
        invoke op (fst (move_construct (Option_value_ref this)))
      else return_exec (Option_from_None None'))"

text \<open>\<open>take()\<close>: the pair is (the container returned, \<open>*this\<close> afterwards).\<close>

definition Option_take :: "'a Option \<Rightarrow> 'a Option \<times> 'a Option" where
  "Option_take this =
     (if Option_is_some this then
        (let (some, src) = Some_ctor (Option_value_ref this);
             this1 = this\<lparr>Option.storage_value' := destroy src\<rparr>;
             this2 = this1\<lparr>is_none' := True\<rparr>
         in (Option_from_Some some, this2))
      else (Option_from_None None', this))"

text \<open>
  \<open>replace(T&& replacement)\<close>: the pair is (the container returned, \<open>*this\<close> afterwards).
\<close>

definition Option_replace :: "'a Option \<Rightarrow> 'a obj \<Rightarrow> 'a Option \<times> 'a Option" where
  "Option_replace this replacement =
     (if Option_is_some this then
        (let (replacement1, v) = std_swap replacement (Option_value_ref this);
             this1 = this\<lparr>Option.storage_value' := v\<rparr>
         in (Option_from_Some (fst (Some_ctor replacement1)), this1))
      else
        (let (v, src) = move_construct replacement;
             this1 = this\<lparr>Option.storage_value' := v\<rparr>;
             this2 = this1\<lparr>is_none' := False\<rparr>
         in (Option_from_None None', this2)))"

text \<open>\<open>replace(T const& replacement)\<close>: as above, on a copy of the argument.\<close>

definition Option_replace_cref :: "'a Option \<Rightarrow> 'a obj \<Rightarrow> 'a Option \<times> 'a Option" where
  "Option_replace_cref this replacement =
     (if Option_is_some this then
        (let copy = copy_construct replacement;
             (copy1, v) = std_swap copy (Option_value_ref this);
             this1 = this\<lparr>Option.storage_value' := v\<rparr>
         in (Option_from_Some (fst (Some_ctor copy1)), this1))
      else
        (let this1 = this\<lparr>Option.storage_value' := copy_construct replacement\<rparr>;
             this2 = this1\<lparr>is_none' := False\<rparr>
         in (Option_from_None None', this2)))"

subsection \<open>\<open>Result<T, E>\<close>: accessors and combinators\<close>

text \<open>
  \<open>E& err_value() &\<close> and \<open>E const& err_value() const&\<close>:
  \<open>if (is_ok_) internal::result::no_err_lref(value_cref_()); return err_ref_();\<close>
\<close>

definition Result_err_value :: "('t, 'e) Result \<Rightarrow> 'e obj exec" where
  "Result_err_value this =
     bind_exec (if is_ok' this then result_no_err_lref (Result_value_ref this)
                else return_exec ())
       (\<lambda>u. return_exec (Result_err_ref this))"

text \<open>\<open>ok() &&\<close> and \<open>err() &&\<close>\<close>

definition Result_ok :: "('t, 'e) Result \<Rightarrow> 't Option" where
  "Result_ok this =
     (if Result_is_ok this then Option_from_Some (fst (Some_ctor (Result_value_ref this)))
      else Option_from_None None')"

definition Result_err :: "('t, 'e) Result \<Rightarrow> 'e Option" where
  "Result_err this =
     (if Result_is_ok this then Option_from_None None'
      else Option_from_Some (fst (Some_ctor (Result_err_ref this))))"

text \<open>
  \<open>AND(Result<U, F>&& res) &&\<close>, under \<open>requires convertible_to<E, F>\<close>: the conversion
  is the argument \<open>conv\<close>. On failure: \<open>Err<F>(E(std::move(err_ref_())))\<close>.
\<close>

definition Result_AND ::
    "('t, 'e) Result \<Rightarrow> ('u, 'f) Result \<Rightarrow> ('e \<Rightarrow> 'f) \<Rightarrow> ('u, 'f) Result" where
  "Result_AND this res conv =
     (if Result_is_ok this then fst (Result_move_ctor res)
      else
        (let (e, src) = move_construct (Result_err_ref this)
         in Result_from_Err (fst (Err_ctor (convert conv e)))))"

text \<open>
  \<open>and_then(Fn&& op) &&\<close>, of type \<open>Result<invoke_result<Fn&&, T&&>, E>\<close>: the result of
  \<open>op\<close> is wrapped in \<open>Ok\<close>; on failure \<open>Err<E>(std::move(err_ref_()))\<close>.
\<close>

definition Result_and_then ::
    "('t, 'e) Result \<Rightarrow> ('t obj \<Rightarrow> 'u obj) \<Rightarrow> ('u, 'e) Result exec" where
  "Result_and_then this op =
     (if Result_is_ok this then
        bind_exec (invoke op (fst (move_construct (Result_value_ref this))))
          (\<lambda>r. return_exec (Result_from_Ok (fst (Ok_ctor r))))
      else return_exec (Result_from_Err (fst (Err_ctor (Result_err_ref this)))))"

text \<open>
  \<open>OR(Result<U, F>&& alt) &&\<close>, under \<open>requires convertible_to<T&&, U>\<close>: the conversion
  is the argument \<open>conv\<close>. On success: \<open>Ok<U>(static_cast<U>(std::move(value_ref_())))\<close>.
\<close>

definition Result_OR ::
    "('t, 'e) Result \<Rightarrow> ('u, 'f) Result \<Rightarrow> ('t \<Rightarrow> 'u) \<Rightarrow> ('u, 'f) Result" where
  "Result_OR this alt conv =
     (if Result_is_ok this then
        Result_from_Ok (fst (Ok_ctor (convert conv (Result_value_ref this))))
      else fst (Result_move_ctor alt))"

subsection \<open>\<open>Result<T, E>\<close>: move assignment\<close>

text \<open>
  \<open>Result& operator=(Result&& rhs)\<close> works on the two containers and, to make the order of
  its steps visible, a log of what it does to the payloads: a destructor call on a member of
  \<open>*this\<close>, a placement new into a member of \<open>*this\<close>, or a \<open>std::swap\<close> of a member of
  \<open>*this\<close> with the same member of \<open>rhs\<close>. Each statement of the body is one function on
  this state and appends its own entry.
\<close>

datatype member = Storage_value | Storage_err

datatype lifetime_event = Destructed member | Constructed member | Swapped member

record ('t, 'e) assignment =
  assign_this :: "('t, 'e) Result"
  assign_rhs :: "('t, 'e) Result"
  assign_log :: "lifetime_event list"

text \<open>\<open>std::swap(value_ref_(), rhs.value_ref_());\<close>\<close>

definition swap_values :: "('t, 'e) assignment \<Rightarrow> ('t, 'e) assignment" where
  "swap_values s =
     (let (a, b) = std_swap (Result_value_ref (assign_this s)) (Result_value_ref (assign_rhs s))
      in s\<lparr>assign_this := (assign_this s)\<lparr>Result.storage_value' := a\<rparr>,
            assign_rhs := (assign_rhs s)\<lparr>Result.storage_value' := b\<rparr>,
            assign_log := assign_log s @ [Swapped Storage_value]\<rparr>)"

text \<open>\<open>std::swap(err_ref_(), rhs.err_ref_());\<close>\<close>

definition swap_errs :: "('t, 'e) assignment \<Rightarrow> ('t, 'e) assignment" where
  "swap_errs s =
     (let (a, b) = std_swap (Result_err_ref (assign_this s)) (Result_err_ref (assign_rhs s))
      in s\<lparr>assign_this := (assign_this s)\<lparr>storage_err' := a\<rparr>,
            assign_rhs := (assign_rhs s)\<lparr>storage_err' := b\<rparr>,
            assign_log := assign_log s @ [Swapped Storage_err]\<rparr>)"

text \<open>\<open>storage_value_.~T();\<close>\<close>

definition destruct_value :: "('t, 'e) assignment \<Rightarrow> ('t, 'e) assignment" where
  "destruct_value s =
     s\<lparr>assign_this :=
          (assign_this s)\<lparr>Result.storage_value' := destroy (Result.storage_value' (assign_this s))\<rparr>,
       assign_log := assign_log s @ [Destructed Storage_value]\<rparr>"

text \<open>\<open>storage_err_.~E();\<close>\<close>

definition destruct_err :: "('t, 'e) assignment \<Rightarrow> ('t, 'e) assignment" where
  "destruct_err s =
     s\<lparr>assign_this := (assign_this s)\<lparr>storage_err' := destroy (storage_err' (assign_this s))\<rparr>,
       assign_log := assign_log s @ [Destructed Storage_err]\<rparr>"

text \<open>\<open>new (&storage_value_) T(std::move(rhs.storage_value_));\<close>\<close>

definition construct_value :: "('t, 'e) assignment \<Rightarrow> ('t, 'e) assignment" where
  "construct_value s =
     (let (v, src) = move_construct (Result.storage_value' (assign_rhs s))
      in s\<lparr>assign_this := (assign_this s)\<lparr>Result.storage_value' := v\<rparr>,
            assign_rhs := (assign_rhs s)\<lparr>Result.storage_value' := src\<rparr>,
            assign_log := assign_log s @ [Constructed Storage_value]\<rparr>)"

text \<open>\<open>new (&storage_err_) E(std::move(rhs.storage_err_));\<close>\<close>

definition construct_err :: "('t, 'e) assignment \<Rightarrow> ('t, 'e) assignment" where
  "construct_err s =
     (let (e, src) = move_construct (storage_err' (assign_rhs s))
      in s\<lparr>assign_this := (assign_this s)\<lparr>storage_err' := e\<rparr>,
            assign_rhs := (assign_rhs s)\<lparr>storage_err' := src\<rparr>,
            assign_log := assign_log s @ [Constructed Storage_err]\<rparr>)"

text \<open>\<open>is_ok_ = b;\<close>\<close>

definition set_is_ok :: "bool \<Rightarrow> ('t, 'e) assignment \<Rightarrow> ('t, 'e) assignment" where
  "set_is_ok b s = s\<lparr>assign_this := (assign_this s)\<lparr>is_ok' := b\<rparr>\<rparr>"

definition Result_move_assign ::
    "('t, 'e) Result \<Rightarrow> ('t, 'e) Result \<Rightarrow> ('t, 'e) assignment" where
  "Result_move_assign this rhs =
     (let s = \<lparr>assign_this = this, assign_rhs = rhs, assign_log = []\<rparr>
      in if Result_is_ok this \<and> Result_is_ok rhs then swap_values s
         else if Result_is_ok this \<and> Result_is_err rhs then
           set_is_ok False (construct_err (destruct_value s))
         else if Result_is_err this \<and> Result_is_ok rhs then
           set_is_ok True (construct_value (destruct_err s))
         else swap_errs s)"

text \<open>
  Whether a log has the destruction of the member \<open>out\<close> at some point and the construction
  of the member \<open>inc\<close> at a later one.
\<close>

fun destructed_before_constructed :: "member \<Rightarrow> member \<Rightarrow> lifetime_event list \<Rightarrow> bool" where
  "destructed_before_constructed out inc [] = False"
| "destructed_before_constructed out inc (ev # evs) =
     ((ev = Destructed out \<and> Constructed inc \<in> set evs)
      \<or> destructed_before_constructed out inc evs)"

text \<open>The member of a container's union that its discriminant declares live.\<close>

definition live_member :: "('t, 'e) Result \<Rightarrow> member" where
  "live_member this = (if Result_is_ok this then Storage_value else Storage_err)"

subsection \<open>The states of the containers\<close>

text \<open>
  The containers as client code builds them: \<open>Option x = Some(v)\<close>, \<open>Option<T> y = None\<close>,
  \<open>Result<T, E> x = Ok(v)\<close>, \<open>Result<T, E> y = Err(e)\<close>.
\<close>

definition Present :: "'a \<Rightarrow> 'a Option" where
  "Present v = Option_from_Some (fst (Some_ctor (Holds v)))"

definition Absent :: "'a Option" where
  "Absent = Option_from_None None'"

definition Success :: "'t \<Rightarrow> ('t, 'e) Result" where
  "Success v = Result_from_Ok (fst (Ok_ctor (Holds v)))"

definition Failure :: "'e \<Rightarrow> ('t, 'e) Result" where
  "Failure e = Result_from_Err (fst (Err_ctor (Holds e)))"

text \<open>
  The invariant of the data model: the discriminant says exactly which member of the union
  holds a live object.
\<close>

definition Option_inv :: "'a Option \<Rightarrow> bool" where
  "Option_inv this = (is_none' this = (Option.storage_value' this = Vacant))"

definition Result_inv :: "('t, 'e) Result \<Rightarrow> bool" where
  "Result_inv this =
     (if is_ok' this then Result.storage_value' this \<noteq> Vacant \<and> storage_err' this = Vacant
      else Result.storage_value' this = Vacant \<and> storage_err' this \<noteq> Vacant)"

text \<open>
  A computation that raises exactly one panic and does not return: it terminates the process
  with one more invocation of the handler than before.
\<close>

definition panics_once :: "'a exec \<Rightarrow> process \<Rightarrow> bool" where
  "panics_once m p =
     (fst (m p) = Terminated \<and>
      length (handler_invocations (snd (m p))) = length (handler_invocations p) + 1)"

section \<open>Supporting lemmas\<close>

lemma fst_move_construct: "fst (move_construct x) = x"
  by (cases x) simp_all

lemma std_swap_live: "a \<noteq> Vacant \<Longrightarrow> b \<noteq> Vacant \<Longrightarrow> std_swap a b = (b, a)"
  by (cases a; cases b) (simp_all add: std_swap_def)

lemma Present_eq: "Present v = \<lparr>Option.storage_value' = Holds v, is_none' = False\<rparr>"
  by (simp add: Present_def Some_ctor_def Option_from_Some_def)

lemma Absent_eq: "Absent = \<lparr>Option.storage_value' = Vacant, is_none' = True\<rparr>"
  by (simp add: Absent_def Option_from_None_def)

lemma Success_eq:
  "Success v = \<lparr>is_ok' = True, storage_value' = Holds v, storage_err' = Vacant\<rparr>"
  by (simp add: Success_def Ok_ctor_def Result_from_Ok_def)

lemma Failure_eq:
  "Failure e = \<lparr>is_ok' = False, storage_value' = Vacant, storage_err' = Holds e\<rparr>"
  by (simp add: Failure_def Err_ctor_def Result_from_Err_def)

lemmas option_defs = Option_is_some_def Option_is_none_def Option_value_ref_def
  Option_from_Some_def Option_from_None_def Some_ctor_def

lemmas result_defs = Result_is_ok_def Result_is_err_def Result_value_ref_def Result_err_ref_def
  Result_from_Ok_def Result_from_Err_def Ok_ctor_def Err_ctor_def

lemmas assign_defs = Result_move_assign_def swap_values_def swap_errs_def destruct_value_def
  destruct_err_def construct_value_def construct_err_def set_is_ok_def

text \<open>The containers that client code builds satisfy the invariant.\<close>

lemma Option_inv_Present: "Option_inv (Present v)"
  by (simp add: Option_inv_def Present_eq)

lemma Option_inv_Absent: "Option_inv Absent"
  by (simp add: Option_inv_def Absent_eq)

lemma Result_inv_Success: "Result_inv (Success v)"
  by (simp add: Result_inv_def Success_eq)

lemma Result_inv_Failure: "Result_inv (Failure e)"
  by (simp add: Result_inv_def Failure_eq)

text \<open>
  A container that satisfies the invariant is \<open>Absent\<close>, or \<open>Present v\<close>, or holds a payload
  that has been moved from.
\<close>

lemma Option_inv_cases:
  assumes "Option_inv this"
  shows "this = Absent \<or> (\<exists>v. this = Present v) \<or>
         this = \<lparr>Option.storage_value' = Moved_from, is_none' = False\<rparr>"
  using assms
  by (cases this; cases "Option.storage_value' this")
     (auto simp: Option_inv_def Absent_eq Present_eq)

text \<open>The move constructors hand over the whole state of a container that satisfies it.\<close>

lemma Option_move_ctor_fst:
  "fst (Option_move_ctor rhs) =
     \<lparr>Option.storage_value' = (if is_none' rhs then Vacant else Option.storage_value' rhs),
      is_none' = is_none' rhs\<rparr>"
  by (simp add: Option_move_ctor_def Option_is_some_def Option_is_none_def split_beta
      fst_move_construct)

lemma Option_move_ctor_inv: "Option_inv rhs \<Longrightarrow> fst (Option_move_ctor rhs) = rhs"
  by (auto simp: Option_move_ctor_fst Option_inv_def)

lemma Result_move_ctor_inv: "Result_inv rhs \<Longrightarrow> fst (Result_move_ctor rhs) = rhs"
  by (auto simp: Result_move_ctor_def Result_inv_def Result_is_ok_def split_beta
      fst_move_construct split: if_splits)

text \<open>On the right variant the accessors return the payload and raise no panic.\<close>

lemma Option_value_Present: "Option_value (Present v) p = (Returned (Holds v), p)"
  by (simp add: Option_value_def Present_eq Option_value_ref_def bind_exec_def return_exec_def)

lemma Option_unwrap_Present: "Option_unwrap (Present v) p = (Returned (Holds v), p)"
  by (simp add: Option_unwrap_def Present_eq option_defs return_exec_def)

lemma Result_err_value_Failure: "Result_err_value (Failure e) p = (Returned (Holds e), p)"
  by (simp add: Result_err_value_def Failure_eq Result_err_ref_def bind_exec_def return_exec_def)

text \<open>On the present and on the success variant \<open>and_then\<close> invokes its callable once.\<close>

lemma Option_and_then_Present:
  "Option_and_then (Present v) op p =
     (Returned (op (Holds v)), p\<lparr>callable_invocations := callable_invocations p + 1\<rparr>)"
  by (simp add: Option_and_then_def Present_eq option_defs invoke_def)

lemma Result_and_then_Success:
  "Result_and_then (Success v) op p =
     (Returned (Result_from_Ok (Ok (op (Holds v)))),
      p\<lparr>callable_invocations := callable_invocations p + 1\<rparr>)"
  by (simp add: Result_and_then_def Success_eq result_defs invoke_def bind_exec_def
      return_exec_def split_beta fst_move_construct)

text \<open>Both assignment operators keep the invariant of both containers.\<close>

lemma Option_move_assign_inv:
  assumes "Option_inv a" and "Option_inv b"
  shows "Option_inv (fst (Option_move_assign a b)) \<and> Option_inv (snd (Option_move_assign a b))"
  using assms
  by (cases a; cases b)
     (auto simp: Option_move_assign_def Option_inv_def Option_is_some_def Option_is_none_def
       std_swap_live destroy_def split_beta fst_move_construct)

lemma Result_move_assign_inv:
  assumes "Result_inv this" and "Result_inv rhs"
  shows "Result_inv (assign_this (Result_move_assign this rhs)) \<and>
         Result_inv (assign_rhs (Result_move_assign this rhs))"
  using assms
  by (cases this; cases rhs; cases "Result.storage_value' rhs"; cases "storage_err' rhs")
     (auto simp: assign_defs Result_inv_def Result_is_ok_def Result_is_err_def
       Result_value_ref_def Result_err_ref_def std_swap_live destroy_def split_beta
       split: if_splits)

section \<open>The claims\<close>

text \<open>
  C1. On an \<open>Option\<close> in the absent state, \<open>value()\<close> and \<open>unwrap()\<close> raise exactly one
  panic and do not return; on a \<open>Result\<close> in the success state, so does \<open>err_value()\<close>. The
  guards are those of the accessors; what the helper behind each guard does is taken from the
  spec's panic state machine.
\<close>

theorem fatal_access_panics_once:
  assumes "Option_is_none opt" and "Result_is_ok res"
  shows "panics_once (Option_value opt) p \<and> panics_once (Option_unwrap opt) p \<and>
         panics_once (Result_err_value res) p"
  using assms
  by (simp add: panics_once_def Option_value_def Option_unwrap_def Result_err_value_def
      Option_is_none_def Option_is_some_def Result_is_ok_def bind_exec_def option_no_lref_def
      option_no_value_def result_no_err_lref_def panic_def)

theorem fatal_access_panics_once_witness:
  "Option_is_none (Absent :: int Option) \<and>
   Result_is_ok (Success 7 :: (int, string) Result) \<and>
   panics_once (Option_value (Absent :: int Option))
     \<lparr>handler_invocations = [], callable_invocations = 0\<rparr> \<and>
   panics_once (Option_unwrap (Absent :: int Option))
     \<lparr>handler_invocations = [], callable_invocations = 0\<rparr> \<and>
   panics_once (Result_err_value (Success 7 :: (int, string) Result))
     \<lparr>handler_invocations = [], callable_invocations = 0\<rparr>"
proof -
  have a: "Option_is_none (Absent :: int Option)"
    by (simp add: Absent_eq Option_is_none_def)
  have s: "Result_is_ok (Success 7 :: (int, string) Result)"
    by (simp add: Success_eq Result_is_ok_def)
  show ?thesis
    using a s
      fatal_access_panics_once [OF a s, of "\<lparr>handler_invocations = [], callable_invocations = 0\<rparr>"]
    by simp
qed

text \<open>
  C2, as the code has it. Move assignment on \<open>Result\<close> handles all four combinations of
  variants, and afterwards the target is what the right-hand side was. When the variants
  differ, the outgoing payload of the target is destructed and then the incoming one is
  constructed in its place. When they agree, the two payloads are exchanged with \<open>std::swap\<close>:
  nothing is destructed or constructed in the target, and the outgoing payload ends up in the
  right-hand side.
\<close>

theorem result_move_assign_transitions:
  assumes "Result_inv this" and "Result_inv rhs"
  shows "assign_this (Result_move_assign this rhs) = rhs \<and>
         (if Result_is_ok this = Result_is_ok rhs then
            assign_log (Result_move_assign this rhs) = [Swapped (live_member this)] \<and>
            assign_rhs (Result_move_assign this rhs) = this
          else
            assign_log (Result_move_assign this rhs) =
              [Destructed (live_member this), Constructed (live_member rhs)] \<and>
            destructed_before_constructed (live_member this) (live_member rhs)
              (assign_log (Result_move_assign this rhs)))"
  using assms
  by (cases this; cases rhs)
     (auto simp: assign_defs Result_inv_def Result_is_ok_def Result_is_err_def live_member_def
       Result_value_ref_def Result_err_ref_def std_swap_live destroy_def split_beta
       fst_move_construct split: if_splits)

theorem result_move_assign_transitions_witness:
  "Result_inv (Success 1 :: (int, string) Result) \<and>
   Result_inv (Failure ''late'' :: (int, string) Result) \<and>
   Result_inv (Failure ''early'' :: (int, string) Result) \<and>
   assign_this (Result_move_assign (Success 1) (Failure ''late'' :: (int, string) Result))
     = Failure ''late'' \<and>
   assign_log (Result_move_assign (Success 1) (Failure ''late'' :: (int, string) Result))
     = [Destructed Storage_value, Constructed Storage_err] \<and>
   assign_this (Result_move_assign (Failure ''early'') (Failure ''late'' :: (int, string) Result))
     = Failure ''late'' \<and>
   assign_log (Result_move_assign (Failure ''early'') (Failure ''late'' :: (int, string) Result))
     = [Swapped Storage_err] \<and>
   assign_rhs (Result_move_assign (Failure ''early'') (Failure ''late'' :: (int, string) Result))
     = Failure ''early''"
proof -
  have t: "Result_inv (Success 1 :: (int, string) Result)"
    by (rule Result_inv_Success)
  have r: "Result_inv (Failure ''late'' :: (int, string) Result)"
    by (rule Result_inv_Failure)
  have e: "Result_inv (Failure ''early'' :: (int, string) Result)"
    by (rule Result_inv_Failure)
  show ?thesis
    using t r e result_move_assign_transitions [OF t r] result_move_assign_transitions [OF e r]
    by (simp add: live_member_def Result_is_ok_def Success_eq Failure_eq)
qed

text \<open>
  C2, as the claim states it, fails where both sides are successes: assigning \<open>Ok(2)\<close> to a
  container holding \<open>Ok(1)\<close> swaps the payloads, so the log has no destruction followed by a
  construction, and the outgoing payload \<open>1\<close> is alive in the right-hand side.
\<close>

theorem result_move_assign_same_variant_counterexample:
  "assign_log (Result_move_assign (Success (1::int)) (Success 2 :: (int, int) Result))
     = [Swapped Storage_value] \<and>
   \<not> destructed_before_constructed Storage_value Storage_value
       (assign_log (Result_move_assign (Success (1::int)) (Success 2 :: (int, int) Result))) \<and>
   assign_rhs (Result_move_assign (Success (1::int)) (Success 2 :: (int, int) Result))
     = Success 1"
  by (simp add: assign_defs Success_eq Result_is_ok_def Result_value_ref_def std_swap_def)

text \<open>
  C3. The conversions between the two containers: \<open>Present(v).ok_or(e)\<close> is \<open>Success(v)\<close>,
  \<open>Absent.ok_or(e)\<close> is \<open>Failure(e)\<close>, \<open>Success(v).ok()\<close> is \<open>Present(v)\<close>,
  \<open>Failure(e).ok()\<close> is \<open>Absent\<close> and \<open>Failure(e).err()\<close> is \<open>Present(e)\<close>.
\<close>

theorem conversions_between_containers:
  "Option_ok_or (Present v) (Holds e) = Success v \<and>
   Option_ok_or Absent (Holds e) = Failure e \<and>
   Result_ok (Success v) = Present v \<and>
   Result_ok (Failure e) = Absent \<and>
   Result_err (Failure e) = Present e"
  by (simp add: Option_ok_or_def Result_ok_def Result_err_def Present_eq Absent_eq Success_eq
      Failure_eq option_defs result_defs)

text \<open>
  C4. For any two operands, the result of \<open>AND\<close>, \<open>OR\<close>, \<open>XOR\<close> on \<open>Option\<close> is present
  exactly when the boolean AND, OR, XOR of the operands' presence holds, and its payload is
  that of the designated operand: the second for \<open>AND\<close>, the first present one for \<open>OR\<close>, the
  only present one for \<open>XOR\<close>; an absent result has no payload.
\<close>

theorem option_AND_OR_XOR_truth_tables:
  "Option_is_some (Option_AND a b) = (Option_is_some a \<and> Option_is_some b) \<and>
   Option_value_ref (Option_AND a b) =
     (if Option_is_some a \<and> Option_is_some b then Option_value_ref b else Vacant) \<and>
   Option_is_some (Option_OR c d) = (Option_is_some c \<or> Option_is_some d) \<and>
   Option_value_ref (Option_OR c d) =
     (if Option_is_some c then Option_value_ref c
      else if Option_is_some d then Option_value_ref d else Vacant) \<and>
   Option_is_some (Option_XOR c d) = (Option_is_some c \<noteq> Option_is_some d) \<and>
   Option_value_ref (Option_XOR c d) =
     (if Option_is_some c \<and> Option_is_none d then Option_value_ref c
      else if Option_is_none c \<and> Option_is_some d then Option_value_ref d else Vacant)"
  by (simp add: Option_AND_def Option_OR_def Option_XOR_def Option_move_ctor_fst
      Option_is_some_def Option_is_none_def Option_value_ref_def Option_from_None_def)

theorem option_AND_OR_XOR_truth_tables_witness:
  "Option_is_some (Option_AND (Present (2::int)) (Present ''foo'')) \<and>
   Option_value_ref (Option_AND (Present (2::int)) (Present ''foo'')) = Holds ''foo'' \<and>
   Option_is_some (Option_OR Absent (Present (100::int))) \<and>
   Option_value_ref (Option_OR Absent (Present (100::int))) = Holds 100 \<and>
   Option_is_some (Option_XOR Absent (Present (100::int))) \<and>
   Option_value_ref (Option_XOR Absent (Present (100::int))) = Holds 100"
  using option_AND_OR_XOR_truth_tables
    [of "Present (2::int)" "Present ''foo''" "Absent :: int Option" "Present (100::int)"]
  by (simp add: Present_eq Absent_eq Option_is_some_def Option_is_none_def Option_value_ref_def)

text \<open>
  C5. \<open>take()\<close> on \<open>Present(v)\<close> returns \<open>Present(v)\<close> and leaves the container absent; on
  \<open>Absent\<close> it returns \<open>Absent\<close> and leaves the container absent.
\<close>

theorem take_leaves_absent:
  "Option_take (Present v) = (Present v, Absent) \<and> Option_take Absent = (Absent, Absent)"
  by (simp add: Option_take_def Present_eq Absent_eq option_defs destroy_def)

text \<open>
  C6. \<open>replace(x)\<close>, in both overloads, on \<open>Present(old)\<close> returns \<open>Present(old)\<close> and leaves
  \<open>Present(x)\<close>; on \<open>Absent\<close> it returns \<open>Absent\<close> and leaves \<open>Present(x)\<close>.
\<close>

theorem replace_installs_and_returns_old:
  "Option_replace (Present old) (Holds x) = (Present old, Present x) \<and>
   Option_replace Absent (Holds x) = (Absent, Present x) \<and>
   Option_replace_cref (Present old) (Holds x) = (Present old, Present x) \<and>
   Option_replace_cref Absent (Holds x) = (Absent, Present x)"
  by (simp add: Option_replace_def Option_replace_cref_def Present_eq Absent_eq option_defs
      std_swap_def copy_construct_def)

text \<open>
  C7. \<open>and_then\<close> short-circuits. On \<open>Absent\<close> it returns \<open>Absent\<close>, and on \<open>Failure(e)\<close> it
  returns \<open>Failure(e)\<close> with the payload unchanged; in both cases, for any callable, the process
  is left as it was, so the callable has not been invoked.
\<close>

theorem and_then_short_circuits:
  "Option_and_then Absent op p = (Returned Absent, p) \<and>
   callable_invocations (snd (Option_and_then Absent op p)) = callable_invocations p \<and>
   Result_and_then (Failure e) op' p = (Returned (Failure e), p) \<and>
   callable_invocations (snd (Result_and_then (Failure e) op' p)) = callable_invocations p"
  by (simp add: Option_and_then_def Result_and_then_def Absent_eq Failure_eq option_defs
      result_defs return_exec_def)

text \<open>
  C8. \<open>AND\<close> and \<open>OR\<close> on \<open>Result\<close> with operands of differing payload types, the required
  conversion being an argument. \<open>left.AND(right)\<close> is \<open>right\<close> when \<open>left\<close> is a success, and
  otherwise the failure that carries the converted failure payload of \<open>left\<close>;
  \<open>left.OR(right)\<close> is the success that carries the converted success payload of \<open>left\<close> when
  \<open>left\<close> is a success, and otherwise \<open>right\<close>.
\<close>

theorem result_AND_OR_with_conversion:
  assumes "Result_inv res" and "Result_inv alt"
  shows "Result_AND (Success v) res conv = res \<and>
         Result_AND (Failure e) res conv = Failure (conv e) \<and>
         Result_OR (Success v) alt conv' = Success (conv' v) \<and>
         Result_OR (Failure e) alt conv' = alt"
  using assms
  by (simp add: Result_AND_def Result_OR_def Result_move_ctor_inv Success_eq Failure_eq
      result_defs)

theorem result_AND_OR_with_conversion_witness:
  "Result_inv (Failure (- 1) :: (string, int) Result) \<and>
   Result_inv (Success 9 :: (int, string) Result) \<and>
   Result_AND (Success 2 :: (nat, nat) Result) (Failure (- 1) :: (string, int) Result) int
     = Failure (- 1) \<and>
   Result_AND (Failure 5 :: (nat, nat) Result) (Failure (- 1) :: (string, int) Result) int
     = Failure 5 \<and>
   Result_OR (Success 2 :: (nat, nat) Result) (Success 9 :: (int, string) Result) int
     = Success 2 \<and>
   Result_OR (Failure 5 :: (nat, nat) Result) (Success 9 :: (int, string) Result) int
     = Success 9"
proof -
  have r: "Result_inv (Failure (- 1) :: (string, int) Result)"
    by (rule Result_inv_Failure)
  have a: "Result_inv (Success 9 :: (int, string) Result)"
    by (rule Result_inv_Success)
  show ?thesis
    using r a result_AND_OR_with_conversion [OF r a, of "2::nat" int "5::nat" int]
    by simp
qed

text \<open>
  C9. The abort handler, whatever the message and the source location, terminates the
  process and returns no value.
\<close>

theorem panic_abort_never_returns:
  "panic_abort info location p = (Terminated, p) \<and>
   (\<forall>r. fst (panic_abort info location p) \<noteq> Returned r)"
  by (simp add: panic_abort_def std_abort_def)

text \<open>
  C10. Move assignment on \<open>Option\<close> exchanges the two containers: after \<open>a = std::move(b)\<close>,
  \<open>a\<close> is what \<open>b\<close> was and \<open>b\<close> is what \<open>a\<close> was, in all four combinations. In particular,
  assigning an absent option to \<open>Present(v)\<close> leaves the source holding \<open>Present(v)\<close>.
\<close>

theorem option_move_assign_exchanges:
  assumes "Option_inv a" and "Option_inv b"
  shows "Option_move_assign a b = (b, a) \<and>
         Option_move_assign (Present v) Absent = (Absent, Present v)"
  using assms
  by (cases a; cases b)
     (auto simp: Option_move_assign_def Option_inv_def Option_is_some_def Option_is_none_def
       std_swap_live destroy_def split_beta fst_move_construct Present_eq Absent_eq)

theorem option_move_assign_exchanges_witness:
  "Option_inv (Present 3 :: int Option) \<and> Option_inv (Present 4 :: int Option) \<and>
   Option_move_assign (Present 3) (Present 4 :: int Option) = (Present 4, Present 3) \<and>
   Option_move_assign (Present 8) (Absent :: int Option) = (Absent, Present 8)"
proof -
  have a: "Option_inv (Present 3 :: int Option)"
    by (rule Option_inv_Present)
  have b: "Option_inv (Present 4 :: int Option)"
    by (rule Option_inv_Present)
  show ?thesis
    using a b option_move_assign_exchanges [OF a b, of "8::int"]
    by simp
qed

end
